theory Spec2Isabelle
  imports Complex_Main
begin

section \<open>The delivery robot state manager (state_manager.py)\<close>

text \<open>
  A shallow embedding of the class \<open>StateManager\<close>. The object's attributes are the
  fields of the record \<open>machine\<close>; every method is a function that takes the machine and
  returns the updated one. Calls that leave the process (publishers, the action server
  and client, sounds, rospy logging) are appended to the field \<open>out\<close> in program order.
  A callback and a handler of the control loop each run as one step: the interleaving of
  the rospy callback threads with the loop is at the granularity of whole methods.
\<close>

subsection \<open>States, messages and configuration\<close>

datatype robot_state =
    STATE_INITIALIZATION
  | STATE_GOTO_KITCHEN
  | STATE_AT_KITCHEN
  | STATE_GOTO_TABLE
  | STATE_AT_TABLE
  | STATE_ON_ERROR

text \<open>The module-level constants are Python strings; \<open>state_name\<close> gives the string.\<close>

fun state_name :: "robot_state \<Rightarrow> string" where
  "state_name STATE_INITIALIZATION = ''INITIALIZATION''"
| "state_name STATE_GOTO_KITCHEN = ''GOTO_KITCHEN''"
| "state_name STATE_AT_KITCHEN = ''AT_KITCHEN''"
| "state_name STATE_GOTO_TABLE = ''GOTO_TABLE''"
| "state_name STATE_AT_TABLE = ''AT_TABLE''"
| "state_name STATE_ON_ERROR = ''ON_ERROR''"

text \<open>The class attributes.\<close>

definition kitchen_location :: string where "kitchen_location = ''kitchen''"
definition confirm_sound :: string where "confirm_sound = ''kaku.wav''"
definition retry_sound :: string where "retry_sound = ''moo.wav''"
definition navi_failed_sound :: string where "navi_failed_sound = ''angry_cat.wav''"
definition order_received_sound :: string where "order_received_sound = ''kaku.wav''"
definition at_table_sound :: string where "at_table_sound = ''lion.wav''"
definition enjoy_meal_sound :: string where "enjoy_meal_sound = ''meow.wav''"
definition bab_sound :: string where "bab_sound = ''pab.wav''"

text \<open>
  The private parameters read by \<open>_init_variables\<close>. Timeouts and distances are Python
  floats; no arithmetic is done on them, so they are kept as reals and \<open>float(timeout)\<close>
  is the identity.
\<close>

record config =
  nav_kitchen_timeout :: real
  nav_table_timeout :: real
  nav_retry :: int
  nav_table_distance :: real
  resource_path :: string

datatype approach = APPROACH_NEAR | APPROACH_ON

record navigate_to_goal =
  goal_location :: string
  goal_approach_type :: approach
  goal_num_retry :: int
  goal_timeout :: real
  goal_distance :: real

record navigate_to_result =
  nav_success :: bool
  nav_message :: string

datatype nav_status = STATUS_RETRY | STATUS_INPROGRESS | STATUS_ERROR

record navigate_to_feedback =
  fb_distance :: real
  fb_message :: string
  fb_status :: nav_status

record deliver_order_goal =
  order_location :: string

record deliver_order_result =
  result_message :: string
  result_success :: bool

text \<open>A raw sample of the two button channels (0 = green, 1 = red).\<close>

record button_sample =
  green_channel :: bool
  red_channel :: bool

datatype led = RED | BLACK | GREEN | ORANGE

text \<open>
  Text built with \<open>str\<close> and \<open>%s\<close>: a list of pieces, where the pieces that Python
  formats from a number or a message stand for their formatted text.
\<close>

datatype piece =
    Str string
  | FloatStr real
  | BoolStr bool
  | GoalStr navigate_to_goal
  | OrderStr deliver_order_goal

type_synonym pytext = "piece list"

datatype effect =
    LogInfo pytext
  | LogWarn pytext
  | PublishDebug string
  | PublishLocalize
  | SendGoal navigate_to_goal
  | AcceptNewGoal
  | SetSucceeded deliver_order_result
  | PublishFeedback pytext
  | PlaySound string string
  | PublishLed1 led
  | PublishLed2 led
  | StartOrderServer

text \<open>
  The attributes \<open>_delivery_location\<close>, \<open>_navigator_finished\<close> and \<open>_navigator_feed\<close>
  are not assigned by the constructor: they are \<open>None\<close> here until their first
  assignment, and reading them before that raises \<open>AttributeError\<close>.
  \<open>state_writes\<close> is a history variable: the values assigned to \<open>_current_state\<close>,
  in order, starting with the constructor's assignment. \<open>last_blink_led\<close> is assigned
  by \<open>_init_led_blinkder\<close> before any read.
\<close>

record machine =
  cfg :: config
  current_state :: robot_state
  initialized :: bool
  previous_button :: "button_sample option"
  init_requested :: bool
  delivery_order_received :: bool
  customer_confirm :: bool
  order_in_progress :: bool
  last_blink_led :: int
  delivery_location :: "string option"
  navigator_finished :: "bool option"
  navigator_feed :: "pytext option"
  out :: "effect list"
  state_writes :: "robot_state list"

datatype error = AttributeError string

text \<open>An exception leaves the object as it was when it was raised.\<close>

type_synonym outcome = "(error \<times> machine) + machine"

subsection \<open>Helpers\<close>

definition emit :: "effect \<Rightarrow> machine \<Rightarrow> machine" where
  "emit e m = m\<lparr>out := out m @ [e]\<rparr>"

definition set_current_state :: "robot_state \<Rightarrow> machine \<Rightarrow> machine" where
  "set_current_state st m = m\<lparr>current_state := st, state_writes := state_writes m @ [st]\<rparr>"

definition loginfo :: "pytext \<Rightarrow> machine \<Rightarrow> machine" where
  "loginfo msg m = emit (LogInfo (Str ''Robot State Manager : '' # msg)) m"

definition logwarn :: "pytext \<Rightarrow> machine \<Rightarrow> machine" where
  "logwarn msg m = emit (LogWarn (Str ''Robot State Manager : '' # msg)) m"

text \<open>
  Modelled from the spec: \<open>play_sound\<close> of utils.py, which is not under src/. The spec
  describes it as the emission of an audio cue (\<open>playCue(cueId)\<close>, called synchronously
  at the transition points).
\<close>

definition play_sound :: "string \<Rightarrow> string \<Rightarrow> machine \<Rightarrow> machine" where
  "play_sound path file m = emit (PlaySound path file) m"

text \<open>
  Modelled from the spec: \<open>check_button_event\<close> of utils.py, which is not under src/.
  The spec describes the pair \<open>(green, red)\<close> as rising edges between two consecutive
  raw samples: a channel that was false in the previous sample and is true in this one.
\<close>

definition check_button_event :: "button_sample \<Rightarrow> button_sample \<Rightarrow> bool \<times> bool" where
  "check_button_event prev cur =
     (\<not> green_channel prev \<and> green_channel cur, \<not> red_channel prev \<and> red_channel cur)"

subsection \<open>Construction\<close>

definition init_variables :: "config \<Rightarrow> machine" where
  "init_variables c =
     \<lparr>cfg = c,
      current_state = STATE_ON_ERROR,
      initialized = False,
      previous_button = None,
      init_requested = False,
      delivery_order_received = False,
      customer_confirm = False,
      order_in_progress = False,
      last_blink_led = 0,
      delivery_location = None,
      navigator_finished = None,
      navigator_feed = None,
      out = [],
      state_writes = [STATE_ON_ERROR]\<rparr>"

definition init_handles :: "machine \<Rightarrow> machine" where
  "init_handles m = loginfo [Str ''Wait for Sematic Navigator Server to be up''] m"

definition init_led_blinkder :: "machine \<Rightarrow> machine" where
  "init_led_blinkder m = m\<lparr>last_blink_led := 2\<rparr>"

text \<open>\<open>__init__\<close>; \<open>_init_states\<close> builds the dispatch table, which is \<open>dispatch\<close> below.\<close>

definition StateManager :: "config \<Rightarrow> machine" where
  "StateManager c = init_led_blinkder (init_handles (init_variables c))"

subsection \<open>Callbacks\<close>

definition process_button :: "button_sample \<Rightarrow> machine \<Rightarrow> machine" where
  "process_button msg m =
     (case previous_button m of
        None \<Rightarrow> m\<lparr>previous_button := Some msg\<rparr>
      | Some prev \<Rightarrow>
          (let (green, red) = check_button_event prev msg;
               m1 = (if green
                     then
                       (let a = (if state_name (current_state m) = []
                                 then set_current_state STATE_INITIALIZATION m else m);
                            b = (if current_state a = STATE_ON_ERROR
                                 then set_current_state STATE_INITIALIZATION a else a)
                        in if current_state b = STATE_AT_TABLE
                           then b\<lparr>customer_confirm := True\<rparr> else b)
                     else m)
           in m1\<lparr>previous_button := Some msg\<rparr>))"

definition process_localized :: "machine \<Rightarrow> machine" where
  "process_localized m = m\<lparr>initialized := True\<rparr>"

definition not_at_kitchen_message :: string where
  "not_at_kitchen_message = ''Robot is not at kitchen. Ignore the order!''"

text \<open>
  The goal callback of the order action server; \<open>goal\<close> is the goal that
  \<open>accept_new_goal()\<close> returns.
\<close>

definition process_deliver_order :: "deliver_order_goal \<Rightarrow> machine \<Rightarrow> machine" where
  "process_deliver_order goal m =
     (let m0 = loginfo [Str ''Received Goal ''] m
      in if current_state m0 \<noteq> STATE_AT_KITCHEN
         then
           (let m1 = logwarn [Str not_at_kitchen_message] m0;
                m2 = emit AcceptNewGoal m1
            in emit (SetSucceeded \<lparr>result_message = not_at_kitchen_message,
                                    result_success = False\<rparr>) m2)
         else
           (let m1 = emit AcceptNewGoal m0;
                m2 = loginfo [OrderStr goal] m1
            in m2\<lparr>delivery_location := Some (order_location goal),
                  delivery_order_received := True\<rparr>))"

definition process_deliver_order_preempt :: "machine \<Rightarrow> machine" where
  "process_deliver_order_preempt m = m"

definition navigator_done :: "navigate_to_result \<Rightarrow> machine \<Rightarrow> machine" where
  "navigator_done result m =
     (let m0 = loginfo [Str ''Navigator Result : '', BoolStr (nav_success result),
                        Str '', Message : '', Str (nav_message result)] m;
          m1 = (if nav_success result = False
                then set_current_state STATE_ON_ERROR
                       (play_sound (resource_path (cfg m0)) navi_failed_sound m0)
                else m0)
      in m1\<lparr>navigator_finished := Some True\<rparr>)"

definition navigator_feedback :: "navigate_to_feedback \<Rightarrow> machine \<Rightarrow> machine" where
  "navigator_feedback feedback m =
     (let feed = [Str ''Distance : '', FloatStr (fb_distance feedback),
                  Str '', Message : '', Str (fb_message feedback)];
          m0 = m\<lparr>navigator_feed := Some feed\<rparr>;
          m1 = loginfo (Str ''Navigator : '' # feed) m0
      in if fb_status feedback = STATUS_RETRY
         then play_sound (resource_path (cfg m1)) retry_sound m1
         else m1)"

subsection \<open>The navigation request\<close>

definition request_navigator ::
  "string \<Rightarrow> approach \<Rightarrow> int \<Rightarrow> real \<Rightarrow> real \<Rightarrow> machine \<Rightarrow> machine" where
  "request_navigator location approach_type num_retry timeout distance m =
     (let goal = \<lparr>goal_location = location,
                  goal_approach_type = approach_type,
                  goal_num_retry = num_retry,
                  goal_timeout = timeout,
                  goal_distance = distance\<rparr>;
          m0 = loginfo [GoalStr goal] m;
          m1 = emit (SendGoal goal) m0
      in m1\<lparr>navigator_finished := Some False\<rparr>)"

subsection \<open>State handlers\<close>

definition state_initialization :: "machine \<Rightarrow> outcome" where
  "state_initialization m =
     (let m1 = (if \<not> init_requested m
                then
                  (let a = m\<lparr>initialized := False\<rparr>;
                       b = emit PublishLocalize a;
                       c = loginfo [Str ''Localization Request sent''] b;
                       d = c\<lparr>init_requested := True\<rparr>
                   in play_sound (resource_path (cfg d)) confirm_sound d)
                else m)
      in if initialized m1
         then
           (let a = loginfo [Str ''Robot Localized''] m1;
                b = loginfo [Str ''Moving To kitchen''] a;
                c = request_navigator ''kitchen'' APPROACH_ON (nav_retry (cfg b))
                      (nav_kitchen_timeout (cfg b)) 0 b;
                d = set_current_state STATE_GOTO_KITCHEN c
            in Inr (d\<lparr>init_requested := False\<rparr>))
         else Inr m1)"

definition delivery_success_message :: string where
  "delivery_success_message = ''Delivery Success!''"

definition state_goto_kitchen :: "machine \<Rightarrow> outcome" where
  "state_goto_kitchen m =
     (case navigator_finished m of
        None \<Rightarrow> Inl (AttributeError ''_navigator_finished'', m)
      | Some finished \<Rightarrow>
          if finished
          then
            (let m1 = set_current_state STATE_AT_KITCHEN m;
                 m2 = (if order_in_progress m1
                       then emit (SetSucceeded \<lparr>result_message = delivery_success_message,
                                                result_success = False\<rparr>)
                              (m1\<lparr>order_in_progress := False\<rparr>)
                       else m1)
             in Inr (play_sound (resource_path (cfg m2)) bab_sound m2))
          else Inr m)"

definition state_at_kitchen :: "machine \<Rightarrow> outcome" where
  "state_at_kitchen m =
     (if delivery_order_received m
      then
        (let m1 = m\<lparr>delivery_order_received := False, order_in_progress := True\<rparr>
         in case delivery_location m1 of
              None \<Rightarrow> Inl (AttributeError ''_delivery_location'', m1)
            | Some location \<Rightarrow>
                (let m2 = request_navigator location APPROACH_ON (nav_retry (cfg m1))
                            (nav_table_timeout (cfg m1)) (nav_table_distance (cfg m1)) m1;
                     m3 = set_current_state STATE_GOTO_TABLE m2
                 in Inr (play_sound (resource_path (cfg m3)) confirm_sound m3)))
      else Inr m)"

definition state_goto_table :: "machine \<Rightarrow> outcome" where
  "state_goto_table m =
     (case navigator_finished m of
        None \<Rightarrow> Inl (AttributeError ''_navigator_finished'', m)
      | Some finished \<Rightarrow>
          if finished
          then
            (let m1 = set_current_state STATE_AT_TABLE m
             in Inr (play_sound (resource_path (cfg m1)) at_table_sound m1))
          else Inr m)"

definition state_at_table :: "machine \<Rightarrow> outcome" where
  "state_at_table m =
     (if customer_confirm m
      then
        (let m1 = m\<lparr>customer_confirm := False\<rparr>;
             m2 = loginfo [Str ''Moving To kitchen''] m1;
             m3 = play_sound (resource_path (cfg m2)) enjoy_meal_sound m2;
             m4 = request_navigator ''kitchen'' APPROACH_ON 3 300 0 m3
         in Inr (set_current_state STATE_GOTO_KITCHEN m4))
      else Inr m)"

definition state_on_error :: "machine \<Rightarrow> outcome" where
  "state_on_error m = Inr m"

text \<open>The dispatch table \<open>self._states\<close>, applied to the current state.\<close>

definition dispatch :: "machine \<Rightarrow> outcome" where
  "dispatch m =
     (case current_state m of
        STATE_INITIALIZATION \<Rightarrow> state_initialization m
      | STATE_GOTO_KITCHEN \<Rightarrow> state_goto_kitchen m
      | STATE_AT_KITCHEN \<Rightarrow> state_at_kitchen m
      | STATE_GOTO_TABLE \<Rightarrow> state_goto_table m
      | STATE_AT_TABLE \<Rightarrow> state_at_table m
      | STATE_ON_ERROR \<Rightarrow> state_on_error m)"

subsection \<open>Status emission\<close>

definition logging :: "machine \<Rightarrow> outcome" where
  "logging m =
     (let m1 = emit (PublishDebug (state_name (current_state m))) m
      in if order_in_progress m1
         then
           (case navigator_feed m1 of
              None \<Rightarrow> Inl (AttributeError ''_navigator_feed'', m1)
            | Some feed \<Rightarrow>
                Inr (emit (PublishFeedback
                             ([Str ''Status : '', Str (state_name (current_state m1)),
                               Str ''  [''] @ feed @ [Str '']''])) m1))
         else Inr m1)"

definition blink_leds :: "machine \<Rightarrow> machine" where
  "blink_leds m =
     (let m1 = m\<lparr>last_blink_led := (last_blink_led m mod 2) + 1\<rparr>
      in if current_state m1 = STATE_ON_ERROR
         then
           (let led1_blink = (if last_blink_led m1 = 1 then BLACK else RED);
                led2_blink = (if last_blink_led m1 = 1 then RED else BLACK)
            in emit (PublishLed2 led2_blink) (emit (PublishLed1 led1_blink) m1))
         else
           (let led1_blink = (if last_blink_led m1 = 1 then BLACK else GREEN);
                led2_blink = (if last_blink_led m1 = 1 then GREEN else BLACK)
            in emit (PublishLed2 led2_blink) (emit (PublishLed1 led1_blink) m1)))"

subsection \<open>The control loop\<close>

text \<open>The loop's local counter \<open>t\<close> together with the object.\<close>

record control_loop =
  loop_t :: int
  robot :: machine

definition spin_start :: "machine \<Rightarrow> control_loop" where
  "spin_start m = \<lparr>loop_t = 2, robot = emit StartOrderServer m\<rparr>"

text \<open>One iteration of the \<open>while\<close> loop of \<open>spin\<close>.\<close>

definition spin_iteration :: "control_loop \<Rightarrow> (error \<times> machine) + control_loop" where
  "spin_iteration w =
     (case dispatch (robot w) of
        Inl e \<Rightarrow> Inl e
      | Inr m1 \<Rightarrow>
          (let t = (loop_t w mod 5) + 1
           in if t = 1
              then (case logging m1 of
                      Inl e \<Rightarrow> Inl e
                    | Inr m2 \<Rightarrow> Inr \<lparr>loop_t = t, robot = blink_leds m2\<rparr>)
              else Inr \<lparr>loop_t = t, robot = m1\<rparr>))"

subsection \<open>Events\<close>

text \<open>
  What can happen to the running node: one of the registered callbacks is invoked, or the
  loop runs one iteration. An exception in the loop ends the run.
\<close>

datatype event =
    Button button_sample
  | Localized
  | OrderGoal deliver_order_goal
  | OrderPreempt
  | NavDone navigate_to_result
  | NavFeedback navigate_to_feedback
  | Tick

definition callback :: "(machine \<Rightarrow> machine) \<Rightarrow> control_loop \<Rightarrow> (error \<times> machine) + control_loop" where
  "callback f w = Inr (w\<lparr>robot := f (robot w)\<rparr>)"

fun step :: "event \<Rightarrow> control_loop \<Rightarrow> (error \<times> machine) + control_loop" where
  "step (Button msg) w = callback (process_button msg) w"
| "step Localized w = callback process_localized w"
| "step (OrderGoal goal) w = callback (process_deliver_order goal) w"
| "step OrderPreempt w = callback process_deliver_order_preempt w"
| "step (NavDone result) w = callback (navigator_done result) w"
| "step (NavFeedback feedback) w = callback (navigator_feedback feedback) w"
| "step Tick w = spin_iteration w"

fun run :: "event list \<Rightarrow> control_loop \<Rightarrow> (error \<times> machine) + control_loop" where
  "run [] w = Inr w"
| "run (e # es) w = (case step e w of Inl x \<Rightarrow> Inl x | Inr w' \<Rightarrow> run es w')"

definition start :: "config \<Rightarrow> control_loop" where
  "start c = spin_start (StateManager c)"

subsection \<open>Observations on runs\<close>

definition handled :: "outcome \<Rightarrow> machine" where
  "handled r = (case r of Inl (e, m) \<Rightarrow> m | Inr m \<Rightarrow> m)"

definition handler_error :: "outcome \<Rightarrow> error option" where
  "handler_error r = (case r of Inl (e, m) \<Rightarrow> Some e | Inr m \<Rightarrow> None)"

definition final_machine :: "(error \<times> machine) + control_loop \<Rightarrow> machine" where
  "final_machine r = (case r of Inl (e, m) \<Rightarrow> m | Inr w \<Rightarrow> robot w)"

definition raised :: "(error \<times> machine) + control_loop \<Rightarrow> error option" where
  "raised r = (case r of Inl (e, m) \<Rightarrow> Some e | Inr w \<Rightarrow> None)"

fun is_send_goal :: "effect \<Rightarrow> bool" where
  "is_send_goal (SendGoal g) = True"
| "is_send_goal e = False"

fun is_set_succeeded :: "effect \<Rightarrow> bool" where
  "is_set_succeeded (SetSucceeded r) = True"
| "is_set_succeeded e = False"

fun is_motion :: "effect \<Rightarrow> bool" where
  "is_motion (SendGoal g) = True"
| "is_motion PublishLocalize = True"
| "is_motion e = False"

text \<open>The effects that a step from \<open>m\<close> to \<open>m'\<close> appended.\<close>

definition new_effects :: "machine \<Rightarrow> machine \<Rightarrow> effect list" where
  "new_effects m m' = drop (length (out m)) (out m')"

definition goals_sent :: "machine \<Rightarrow> machine \<Rightarrow> nat" where
  "goals_sent m m' = length (filter is_send_goal (new_effects m m'))"

text \<open>The assignments to \<open>_current_state\<close> that a step from \<open>m\<close> to \<open>m'\<close> made.\<close>

definition new_state_writes :: "machine \<Rightarrow> machine \<Rightarrow> robot_state list" where
  "new_state_writes m m' = drop (length (state_writes m)) (state_writes m')"

text \<open>Whether the button callback sees a green rising edge in sample \<open>msg\<close>.\<close>

definition green_edge :: "button_sample option \<Rightarrow> button_sample \<Rightarrow> bool" where
  "green_edge prev msg =
     (case prev of None \<Rightarrow> False | Some p \<Rightarrow> fst (check_button_event p msg))"

text \<open>No button sample of the event list is a green rising edge.\<close>

fun no_green_edge :: "button_sample option \<Rightarrow> event list \<Rightarrow> bool" where
  "no_green_edge prev [] = True"
| "no_green_edge prev (Button msg # es) =
     (if green_edge prev msg then False else no_green_edge (Some msg) es)"
| "no_green_edge prev (e # es) = no_green_edge prev es"

subsection \<open>The navigation protocol\<close>

text \<open>
  The navigation service resolves every request once, by a terminal notification (the
  \<open>done\<close> callback). \<open>p\<close> counts the requests sent and not yet resolved.
\<close>

fun terminal_notifications :: "event \<Rightarrow> nat" where
  "terminal_notifications (NavDone r) = 1"
| "terminal_notifications e = 0"

definition pending_after :: "nat \<Rightarrow> event \<Rightarrow> control_loop \<Rightarrow> nat" where
  "pending_after p e w =
     p - terminal_notifications e + goals_sent (robot w) (final_machine (step e w))"

text \<open>The environment's side: a terminal notification only arrives for a pending request.\<close>

fun nav_protocol :: "nat \<Rightarrow> event list \<Rightarrow> control_loop \<Rightarrow> bool" where
  "nav_protocol p [] w = True"
| "nav_protocol p (e # es) w =
     (if terminal_notifications e \<le> p
      then (case step e w of
              Inl x \<Rightarrow> True
            | Inr w' \<Rightarrow> nav_protocol (pending_after p e w) es w')
      else False)"

text \<open>
  The machine's side: a step sends no goal, or sends one goal while none is pending.
\<close>

definition sends_at_most_one :: "nat \<Rightarrow> event \<Rightarrow> control_loop \<Rightarrow> bool" where
  "sends_at_most_one p e w =
     (let n = goals_sent (robot w) (final_machine (step e w))
      in n = 0 \<or> (n = 1 \<and> p = 0))"

fun single_request_in_flight :: "nat \<Rightarrow> event list \<Rightarrow> control_loop \<Rightarrow> bool" where
  "single_request_in_flight p [] w = True"
| "single_request_in_flight p (e # es) w =
     (sends_at_most_one p e w \<and> pending_after p e w \<le> 1 \<and>
      (case step e w of
         Inl x \<Rightarrow> True
       | Inr w' \<Rightarrow> single_request_in_flight (pending_after p e w) es w'))"

subsection \<open>Example inputs\<close>

definition example_config :: config where
  "example_config =
     \<lparr>nav_kitchen_timeout = 300, nav_table_timeout = 300, nav_retry = 3,
      nav_table_distance = 5, resource_path = ''/resources''\<rparr>"

definition released :: button_sample where
  "released = \<lparr>green_channel = False, red_channel = False\<rparr>"

definition green_pressed :: button_sample where
  "green_pressed = \<lparr>green_channel = True, red_channel = False\<rparr>"

definition nav_ok :: navigate_to_result where
  "nav_ok = \<lparr>nav_success = True, nav_message = ''arrived''\<rparr>"

definition nav_failed :: navigate_to_result where
  "nav_failed = \<lparr>nav_success = False, nav_message = ''blocked''\<rparr>"

definition progress :: navigate_to_feedback where
  "progress = \<lparr>fb_distance = 2, fb_message = ''moving'', fb_status = STATUS_INPROGRESS\<rparr>"

definition table_3 :: deliver_order_goal where
  "table_3 = \<lparr>order_location = ''table-3''\<rparr>"

definition table_5 :: deliver_order_goal where
  "table_5 = \<lparr>order_location = ''table-5''\<rparr>"

text \<open>Green button, localization, and the first leg up to the pickup location.\<close>

definition to_goto_kitchen :: "event list" where
  "to_goto_kitchen = [Button released, Button green_pressed, Tick, Localized, Tick]"

definition to_at_kitchen :: "event list" where
  "to_at_kitchen = to_goto_kitchen @ [NavDone nav_ok, Tick]"

definition to_at_kitchen_with_progress :: "event list" where
  "to_at_kitchen_with_progress = to_goto_kitchen @ [NavFeedback progress, NavDone nav_ok, Tick]"

text \<open>The round trip of the spec: pickup, order, drop-off, confirmation, back to pickup.\<close>

definition round_trip :: "event list" where
  "round_trip =
     to_at_kitchen_with_progress @
     [OrderGoal table_3, Tick, NavDone nav_ok, Tick,
      Button released, Button green_pressed, Tick, NavDone nav_ok, Tick]"

definition a_machine :: machine where
  "a_machine = robot (start example_config)"

text \<open>The localization callback arrives before the loop has run the first handler.\<close>

definition localized_before_first_tick :: "event list" where
  "localized_before_first_tick = [Button released, Button green_pressed, Localized]"

text \<open>The localization callback arrives after the handler has sent its request.\<close>

definition localized_after_request :: "event list" where
  "localized_after_request = [Button released, Button green_pressed, Tick, Localized]"

text \<open>An order that the loop has not taken up yet, and one that it has.\<close>

definition order_pending :: "event list" where
  "order_pending = to_at_kitchen @ [OrderGoal table_3]"

definition order_taken_up :: "event list" where
  "order_taken_up = to_at_kitchen_with_progress @ [OrderGoal table_3, Tick]"

text \<open>Callbacks and iterations with the green button never pressed.\<close>

definition button_untouched :: "event list" where
  "button_untouched =
     [Tick, Localized, Button released, NavFeedback progress, OrderGoal table_3,
      Tick, Tick, Button released, Tick, Tick]"

text \<open>On the way to the kitchen, with the green button released again.\<close>

definition travelling_released :: "event list" where
  "travelling_released = to_goto_kitchen @ [Button released]"

text \<open>Callbacks between a failure notification and the next iteration, none a green edge.\<close>

definition quiet_callbacks :: "event list" where
  "quiet_callbacks = [Localized, Button released, NavFeedback progress, OrderGoal table_3]"

subsection \<open>What the order callback does with a goal\<close>

definition order_rejected :: "deliver_order_goal \<Rightarrow> machine \<Rightarrow> bool" where
  "order_rejected goal m =
     (filter is_set_succeeded (new_effects m (process_deliver_order goal m)) =
        [SetSucceeded \<lparr>result_message = not_at_kitchen_message, result_success = False\<rparr>]
      \<and> delivery_location (process_deliver_order goal m) = delivery_location m
      \<and> delivery_order_received (process_deliver_order goal m) = delivery_order_received m)"

definition order_stored :: "deliver_order_goal \<Rightarrow> machine \<Rightarrow> bool" where
  "order_stored goal m =
     (filter is_set_succeeded (new_effects m (process_deliver_order goal m)) = []
      \<and> delivery_location (process_deliver_order goal m) = Some (order_location goal)
      \<and> delivery_order_received (process_deliver_order goal m) = True)"

subsection \<open>Invariants\<close>

text \<open>An order is in progress only away from the kitchen.\<close>

definition kitchen_idle :: "machine \<Rightarrow> bool" where
  "kitchen_idle m = (\<not> (order_in_progress m \<and> current_state m = STATE_AT_KITCHEN))"

text \<open>The machine as it is before the first green button edge.\<close>

definition error_idle :: "machine \<Rightarrow> bool" where
  "error_idle m =
     (current_state m = STATE_ON_ERROR \<and> \<not> order_in_progress m
      \<and> filter is_motion (out m) = [])"

text \<open>A pending request is the only one, and the machine is travelling and waiting for it.\<close>

definition nav_inv :: "nat \<Rightarrow> machine \<Rightarrow> bool" where
  "nav_inv p m =
     (p = 0 \<or>
      (p = 1 \<and> (current_state m = STATE_GOTO_KITCHEN \<or> current_state m = STATE_GOTO_TABLE)
       \<and> navigator_finished m = Some False))"

section \<open>Properties\<close>

lemmas helper_defs = emit_def set_current_state_def loginfo_def logwarn_def play_sound_def
  request_navigator_def
lemmas callback_defs = process_button_def process_localized_def process_deliver_order_def
  process_deliver_order_preempt_def navigator_done_def navigator_feedback_def
lemmas handler_defs = state_initialization_def state_goto_kitchen_def state_at_kitchen_def
  state_goto_table_def state_at_table_def state_on_error_def dispatch_def
lemmas loop_defs = logging_def blink_leds_def spin_iteration_def spin_start_def callback_def
  start_def StateManager_def init_variables_def init_handles_def init_led_blinkder_def
lemmas example_defs = example_config_def released_def green_pressed_def nav_ok_def
  nav_failed_def progress_def table_3_def table_5_def to_goto_kitchen_def to_at_kitchen_def
  to_at_kitchen_with_progress_def round_trip_def a_machine_def check_button_event_def
  localized_before_first_tick_def localized_after_request_def order_pending_def
  order_taken_up_def button_untouched_def travelling_released_def quiet_callbacks_def
lemmas observe_defs = final_machine_def raised_def handled_def handler_error_def
  new_effects_def goals_sent_def new_state_writes_def green_edge_def
lemmas all_defs = helper_defs callback_defs handler_defs loop_defs example_defs observe_defs
  Let_def

subsection \<open>Who writes the current state\<close>

text \<open>
  C1, as stated, fails: the navigation done callback and the button callback assign
  \<open>_current_state\<close> themselves. On the way to the kitchen a failure notification moves
  the state to \<open>ON_ERROR\<close> with no loop iteration in between, and after construction a
  green button edge moves it to \<open>INITIALIZATION\<close> before the loop has run at all.
\<close>

theorem callback_writes_state_counterexample:
  "raised (run to_goto_kitchen (start example_config)) = None
   \<and> current_state (final_machine (run to_goto_kitchen (start example_config)))
       = STATE_GOTO_KITCHEN
   \<and> current_state (final_machine
         (run (to_goto_kitchen @ [NavDone nav_failed]) (start example_config)))
       = STATE_ON_ERROR
   \<and> current_state (robot (start example_config)) = STATE_ON_ERROR
   \<and> current_state (final_machine
         (run [Button released, Button green_pressed] (start example_config)))
       = STATE_INITIALIZATION"
  by (simp add: all_defs)

text \<open>
  C1, amended: the localization, order goal, order preempt and navigation feedback
  callbacks never assign the current state. The navigation done callback assigns it once,
  to \<open>ON_ERROR\<close>, exactly when the result is a failure. The button callback assigns it
  once, to \<open>INITIALIZATION\<close>, exactly on a green rising edge while the state is
  \<open>ON_ERROR\<close>.
\<close>

theorem callbacks_state_writes:
  "new_state_writes m (process_localized m) = []
   \<and> new_state_writes m (process_deliver_order goal m) = []
   \<and> new_state_writes m (process_deliver_order_preempt m) = []
   \<and> new_state_writes m (navigator_feedback feedback m) = []
   \<and> new_state_writes m (navigator_done result m) =
        (if nav_success result then [] else [STATE_ON_ERROR])
   \<and> new_state_writes m (process_button msg m) =
        (if green_edge (previous_button m) msg \<and> current_state m = STATE_ON_ERROR
         then [STATE_INITIALIZATION] else [])
   \<and> current_state (process_localized m) = current_state m
   \<and> current_state (process_deliver_order goal m) = current_state m
   \<and> current_state (process_deliver_order_preempt m) = current_state m
   \<and> current_state (navigator_feedback feedback m) = current_state m
   \<and> current_state (navigator_done result m) =
        (if nav_success result then current_state m else STATE_ON_ERROR)
   \<and> current_state (process_button msg m) =
        (if green_edge (previous_button m) msg \<and> current_state m = STATE_ON_ERROR
         then STATE_INITIALIZATION else current_state m)"
  by (cases "current_state m")
     (auto simp: helper_defs callback_defs observe_defs Let_def
        split: option.splits prod.splits)

theorem callbacks_state_writes_witness:
  "green_edge (previous_button (process_button released a_machine)) green_pressed
   \<and> current_state (process_button released a_machine) = STATE_ON_ERROR
   \<and> new_state_writes (process_button released a_machine)
        (process_button green_pressed (process_button released a_machine))
       = [STATE_INITIALIZATION]
   \<and> new_state_writes (process_button released a_machine)
        (navigator_done nav_failed (process_button released a_machine)) = [STATE_ON_ERROR]
   \<and> new_state_writes (process_button released a_machine)
        (process_deliver_order table_3 (process_button released a_machine)) = []"
  using callbacks_state_writes [of "process_button released a_machine" table_3 progress
      nav_failed green_pressed]
  by (simp add: all_defs)

subsection \<open>Navigation failure\<close>










subsection \<open>The result reported for a delivered order\<close>

text \<open>
  C3: on the round trip of the spec, the arrival back at the pickup location ends the
  order and reports one terminal result. The code reports it with the message
  \<open>Delivery Success!\<close> and the success field \<open>False\<close>.
\<close>

theorem round_trip_reports_success_false:
  "raised (run round_trip (start example_config)) = None
   \<and> current_state (final_machine (run round_trip (start example_config))) = STATE_AT_KITCHEN
   \<and> order_in_progress (final_machine (run round_trip (start example_config))) = False
   \<and> filter is_set_succeeded (out (final_machine (run round_trip (start example_config))))
       = [SetSucceeded \<lparr>result_message = ''Delivery Success!'', result_success = False\<rparr>]"
  by (simp add: all_defs delivery_success_message_def)

subsection \<open>Orders\<close>

text \<open>
  C6: an order goal that arrives while the current state is not \<open>AT_KITCHEN\<close> is
  answered at once, inside the callback, with a result whose success field is \<open>False\<close>
  and whose message says that the robot is not at the kitchen; the stored delivery
  location and the order-received flag keep their values, and so does every other
  attribute of the object.
\<close>

theorem order_rejected_away_from_kitchen:
  assumes "current_state m \<noteq> STATE_AT_KITCHEN"
  shows "new_effects m (process_deliver_order goal m) =
       [LogInfo [Str ''Robot State Manager : '', Str ''Received Goal ''],
        LogWarn [Str ''Robot State Manager : '',
                 Str ''Robot is not at kitchen. Ignore the order!''],
        AcceptNewGoal,
        SetSucceeded \<lparr>result_message = ''Robot is not at kitchen. Ignore the order!'',
                      result_success = False\<rparr>]
     \<and> delivery_location (process_deliver_order goal m) = delivery_location m
     \<and> delivery_order_received (process_deliver_order goal m) = delivery_order_received m
     \<and> process_deliver_order goal m = m\<lparr>out := out (process_deliver_order goal m)\<rparr>"
  using assms
  by (simp add: helper_defs callback_defs observe_defs not_at_kitchen_message_def Let_def)

theorem order_rejected_away_from_kitchen_witness:
  "current_state a_machine \<noteq> STATE_AT_KITCHEN
   \<and> filter is_set_succeeded (new_effects a_machine (process_deliver_order table_3 a_machine))
       = [SetSucceeded \<lparr>result_message = ''Robot is not at kitchen. Ignore the order!'',
                        result_success = False\<rparr>]
   \<and> delivery_location (process_deliver_order table_3 a_machine) = delivery_location a_machine
   \<and> delivery_order_received (process_deliver_order table_3 a_machine)
       = delivery_order_received a_machine"
proof -
  have h: "current_state a_machine \<noteq> STATE_AT_KITCHEN"
    by (simp add: a_machine_def helper_defs loop_defs)
  from order_rejected_away_from_kitchen [OF h, of table_3] h show ?thesis by simp
qed

text \<open>
  C4, as stated, fails: the callback looks at the current state only. While the machine
  waits at the kitchen with a first order stored and not yet taken up by the loop, a
  second order goal is accepted as well, is not answered with a rejection, and replaces
  the stored destination.
\<close>

theorem pending_order_overwritten_counterexample:
  "raised (run order_pending (start example_config)) = None
   \<and> delivery_order_received (final_machine (run order_pending (start example_config)))
   \<and> delivery_location (final_machine (run order_pending (start example_config)))
       = Some ''table-3''
   \<and> raised (run (order_pending @ [OrderGoal table_5]) (start example_config)) = None
   \<and> delivery_location
        (final_machine (run (order_pending @ [OrderGoal table_5]) (start example_config)))
       = Some ''table-5''
   \<and> filter is_set_succeeded
        (out (final_machine (run (order_pending @ [OrderGoal table_5]) (start example_config))))
       = []"
  by (simp add: all_defs)

lemma kitchen_idle_step:
  assumes "kitchen_idle (robot w)" and "step e w = Inr w'"
  shows "kitchen_idle (robot w')"
proof (cases e)
  case Tick
  with assms show ?thesis
    by (cases "current_state (robot w)")
       (auto simp: kitchen_idle_def helper_defs handler_defs loop_defs Let_def
          split: option.splits if_splits sum.splits)
next
  case (Button msg)
  with assms show ?thesis
    by (auto simp: kitchen_idle_def helper_defs callback_defs callback_def Let_def
          split: option.splits if_splits prod.splits)
qed (use assms in \<open>auto simp: kitchen_idle_def helper_defs callback_defs callback_def Let_def
          split: option.splits if_splits\<close>)

lemma kitchen_idle_run:
  assumes "kitchen_idle (robot w)" and "run evs w = Inr w'"
  shows "kitchen_idle (robot w')"
  using assms
proof (induction evs arbitrary: w)
  case Nil
  then show ?case by simp
next
  case (Cons e es)
  then show ?case
    by (auto split: sum.splits dest: kitchen_idle_step)
qed

lemma kitchen_idle_start: "kitchen_idle (robot (start c))"
  by (simp add: kitchen_idle_def helper_defs loop_defs)

lemma not_at_kitchen_rejected: "current_state m \<noteq> STATE_AT_KITCHEN \<Longrightarrow> order_rejected goal m"
  by (simp add: order_rejected_def helper_defs callback_defs observe_defs Let_def)

lemma at_kitchen_stored: "current_state m = STATE_AT_KITCHEN \<Longrightarrow> order_stored goal m"
  by (simp add: order_stored_def helper_defs callback_defs observe_defs Let_def)

text \<open>
  C4, amended: there is one slot for an order and no queue. In every state reached from
  construction without an exception, an order goal that arrives while an order is in
  progress (taken up by the loop, the robot not yet back at the kitchen) is answered with
  a rejection and leaves the stored destination and the order-received flag as they are;
  an order goal that arrives in state \<open>AT_KITCHEN\<close>, also while an earlier one is still
  waiting there, is stored in the slot in place of what was there.
\<close>

theorem second_order_while_in_progress:
  assumes "raised (run evs (start c)) = None"
  shows "(order_in_progress (final_machine (run evs (start c)))
            \<longrightarrow> order_rejected goal (final_machine (run evs (start c))))
     \<and> (current_state (final_machine (run evs (start c))) = STATE_AT_KITCHEN
            \<longrightarrow> order_stored goal (final_machine (run evs (start c))))"
proof -
  from assms obtain w where r: "run evs (start c) = Inr w"
    by (cases "run evs (start c)") (auto simp: raised_def)
  from kitchen_idle_run [OF kitchen_idle_start r] have "kitchen_idle (robot w)" .
  with r show ?thesis
    by (auto simp: final_machine_def kitchen_idle_def
          intro: not_at_kitchen_rejected at_kitchen_stored)
qed

theorem second_order_while_in_progress_witness:
  "raised (run order_taken_up (start example_config)) = None
   \<and> order_in_progress (final_machine (run order_taken_up (start example_config)))
   \<and> order_rejected table_5 (final_machine (run order_taken_up (start example_config)))
   \<and> raised (run order_pending (start example_config)) = None
   \<and> current_state (final_machine (run order_pending (start example_config)))
       = STATE_AT_KITCHEN
   \<and> order_stored table_5 (final_machine (run order_pending (start example_config)))"
proof -
  have h1: "raised (run order_taken_up (start example_config)) = None"
    by (simp add: all_defs)
  have p1: "order_in_progress (final_machine (run order_taken_up (start example_config)))"
    by (simp add: all_defs)
  have h2: "raised (run order_pending (start example_config)) = None"
    by (simp add: all_defs)
  have p2: "current_state (final_machine (run order_pending (start example_config)))
       = STATE_AT_KITCHEN"
    by (simp add: all_defs)
  from second_order_while_in_progress [OF h1, of table_5]
       second_order_while_in_progress [OF h2, of table_5] h1 p1 h2 p2
  show ?thesis by simp
qed

subsection \<open>One navigation request at a time\<close>

lemma nav_step_callback:
  assumes "nav_inv p (robot w)" and "terminal_notifications e \<le> p" and "e \<noteq> Tick"
  shows "sends_at_most_one p e w \<and> pending_after p e w \<le> 1
     \<and> (\<forall>w'. step e w = Inr w' \<longrightarrow> nav_inv (pending_after p e w) (robot w'))"
  using assms
  by (cases e)
     (auto simp: nav_inv_def sends_at_most_one_def pending_after_def helper_defs callback_defs
        callback_def observe_defs Let_def split: option.splits prod.splits)

text \<open>
  What a handler does to the fields the navigation protocol depends on: it sends nothing
  and leaves the finished flag alone (changing the state only if the flag is set), or it
  sends one goal from a state that is not a travelling state, resets the flag and moves to
  a travelling state.
\<close>

lemma dispatch_summary:
  "\<exists>xs. out (handled (dispatch m)) = out m @ xs \<and>
     ((filter is_send_goal xs = []
       \<and> navigator_finished (handled (dispatch m)) = navigator_finished m
       \<and> (current_state (handled (dispatch m)) = current_state m
            \<or> navigator_finished m = Some True))
      \<or> (length (filter is_send_goal xs) = 1
          \<and> current_state m \<noteq> STATE_GOTO_KITCHEN \<and> current_state m \<noteq> STATE_GOTO_TABLE
          \<and> (current_state (handled (dispatch m)) = STATE_GOTO_KITCHEN
               \<or> current_state (handled (dispatch m)) = STATE_GOTO_TABLE)
          \<and> navigator_finished (handled (dispatch m)) = Some False))"
  by (cases "current_state m")
     (simp_all add: handled_def helper_defs handler_defs Let_def split: option.splits)

lemma logging_summary:
  "\<exists>xs. out (handled (logging m)) = out m @ xs \<and> filter is_send_goal xs = []
     \<and> navigator_finished (handled (logging m)) = navigator_finished m
     \<and> current_state (handled (logging m)) = current_state m"
  by (simp add: handled_def helper_defs logging_def Let_def split: option.splits)

lemma blink_leds_summary:
  "\<exists>xs. out (blink_leds m) = out m @ xs \<and> filter is_send_goal xs = []
     \<and> navigator_finished (blink_leds m) = navigator_finished m
     \<and> current_state (blink_leds m) = current_state m"
  by (simp add: helper_defs blink_leds_def Let_def)

lemma final_machine_tick:
  "final_machine (spin_iteration w) = handled (dispatch (robot w))
   \<or> final_machine (spin_iteration w) = handled (logging (handled (dispatch (robot w))))
   \<or> final_machine (spin_iteration w)
       = blink_leds (handled (logging (handled (dispatch (robot w)))))"
  by (simp add: final_machine_def spin_iteration_def handled_def Let_def
        split: sum.splits prod.splits)

lemma tick_summary:
  "\<exists>xs. out (final_machine (spin_iteration w)) = out (robot w) @ xs \<and>
     ((filter is_send_goal xs = []
       \<and> navigator_finished (final_machine (spin_iteration w)) = navigator_finished (robot w)
       \<and> (current_state (final_machine (spin_iteration w)) = current_state (robot w)
            \<or> navigator_finished (robot w) = Some True))
      \<or> (length (filter is_send_goal xs) = 1
          \<and> current_state (robot w) \<noteq> STATE_GOTO_KITCHEN
          \<and> current_state (robot w) \<noteq> STATE_GOTO_TABLE
          \<and> (current_state (final_machine (spin_iteration w)) = STATE_GOTO_KITCHEN
               \<or> current_state (final_machine (spin_iteration w)) = STATE_GOTO_TABLE)
          \<and> navigator_finished (final_machine (spin_iteration w)) = Some False))"
proof -
  let ?m = "robot w"
  let ?d = "handled (dispatch ?m)"
  let ?l = "handled (logging ?d)"
  let ?b = "blink_leds ?l"
  obtain xs where d: "out ?d = out ?m @ xs" and
    dd: "(filter is_send_goal xs = [] \<and> navigator_finished ?d = navigator_finished ?m
          \<and> (current_state ?d = current_state ?m \<or> navigator_finished ?m = Some True))
       \<or> (length (filter is_send_goal xs) = 1
          \<and> current_state ?m \<noteq> STATE_GOTO_KITCHEN \<and> current_state ?m \<noteq> STATE_GOTO_TABLE
          \<and> (current_state ?d = STATE_GOTO_KITCHEN \<or> current_state ?d = STATE_GOTO_TABLE)
          \<and> navigator_finished ?d = Some False)"
    using dispatch_summary [of ?m] by blast
  obtain ys where l: "out ?l = out ?d @ ys" "filter is_send_goal ys = []"
    "navigator_finished ?l = navigator_finished ?d" "current_state ?l = current_state ?d"
    using logging_summary [of ?d] by blast
  obtain zs where b: "out ?b = out ?l @ zs" "filter is_send_goal zs = []"
    "navigator_finished ?b = navigator_finished ?l" "current_state ?b = current_state ?l"
    using blink_leds_summary [of ?l] by blast
  from final_machine_tick [of w] consider
    (D) "final_machine (spin_iteration w) = ?d"
    | (L) "final_machine (spin_iteration w) = ?l"
    | (B) "final_machine (spin_iteration w) = ?b" by blast
  then show ?thesis
  proof cases
    case D
    with d dd show ?thesis by (intro exI [of _ xs]) simp
  next
    case L
    with d dd l show ?thesis by (intro exI [of _ "xs @ ys"]) simp
  next
    case B
    with d dd l b show ?thesis by (intro exI [of _ "xs @ ys @ zs"]) simp
  qed
qed

lemma nav_step_tick:
  assumes "nav_inv p (robot w)"
  shows "sends_at_most_one p Tick w \<and> pending_after p Tick w \<le> 1
     \<and> (\<forall>w'. step Tick w = Inr w' \<longrightarrow> nav_inv (pending_after p Tick w) (robot w'))"
proof -
  obtain xs where o: "out (final_machine (spin_iteration w)) = out (robot w) @ xs" and
    s: "(filter is_send_goal xs = []
       \<and> navigator_finished (final_machine (spin_iteration w)) = navigator_finished (robot w)
       \<and> (current_state (final_machine (spin_iteration w)) = current_state (robot w)
            \<or> navigator_finished (robot w) = Some True))
      \<or> (length (filter is_send_goal xs) = 1
          \<and> current_state (robot w) \<noteq> STATE_GOTO_KITCHEN
          \<and> current_state (robot w) \<noteq> STATE_GOTO_TABLE
          \<and> (current_state (final_machine (spin_iteration w)) = STATE_GOTO_KITCHEN
               \<or> current_state (final_machine (spin_iteration w)) = STATE_GOTO_TABLE)
          \<and> navigator_finished (final_machine (spin_iteration w)) = Some False)"
    using tick_summary [of w] by blast
  from o have g: "goals_sent (robot w) (final_machine (spin_iteration w))
      = length (filter is_send_goal xs)"
    by (simp add: goals_sent_def new_effects_def)
  have f: "\<And>w'. spin_iteration w = Inr w' \<Longrightarrow> robot w' = final_machine (spin_iteration w)"
    by (simp add: final_machine_def)
  from assms s show ?thesis
    unfolding sends_at_most_one_def pending_after_def nav_inv_def Let_def step.simps g
    by (auto dest!: f)
qed

lemma nav_step:
  assumes "nav_inv p (robot w)" and "terminal_notifications e \<le> p"
  shows "sends_at_most_one p e w \<and> pending_after p e w \<le> 1
     \<and> (\<forall>w'. step e w = Inr w' \<longrightarrow> nav_inv (pending_after p e w) (robot w'))"
  using assms nav_step_callback nav_step_tick by (cases "e = Tick") blast+

lemma nav_run:
  assumes "nav_inv p (robot w)" and "nav_protocol p evs w"
  shows "single_request_in_flight p evs w"
  using assms
proof (induction evs arbitrary: p w)
  case Nil
  then show ?case by simp
next
  case (Cons e es)
  from Cons.prems(2) have le: "terminal_notifications e \<le> p"
    by (simp split: if_splits)
  note st = nav_step [OF Cons.prems(1) le]
  show ?case
  proof (cases "step e w")
    case (Inl x)
    with st show ?thesis by simp
  next
    case (Inr w')
    with Cons.prems(2) le have "nav_protocol (pending_after p e w) es w'" by simp
    moreover from st Inr have "nav_inv (pending_after p e w) (robot w')" by blast
    ultimately have "single_request_in_flight (pending_after p e w) es w'"
      by (rule Cons.IH [rotated])
    with st Inr show ?thesis by simp
  qed
qed

text \<open>
  C5: in every run from construction in which the navigation service keeps its side of
  the protocol (a terminal notification arrives only for a request that is pending), each
  callback and each loop iteration sends no goal, or sends exactly one goal while no
  request is pending; so at most one request is pending at any time.
\<close>

theorem one_navigation_request_in_flight:
  assumes "nav_protocol 0 evs (start c)"
  shows "single_request_in_flight 0 evs (start c)"
  using assms by (intro nav_run) (simp_all add: nav_inv_def)

theorem one_navigation_request_in_flight_witness:
  "nav_protocol 0 order_taken_up (start example_config)
   \<and> single_request_in_flight 0 order_taken_up (start example_config)"
proof -
  have h: "nav_protocol 0 order_taken_up (start example_config)"
    by (simp add: all_defs pending_after_def)
  from one_navigation_request_in_flight [OF h] h show ?thesis by simp
qed

subsection \<open>Exceptions in the loop\<close>

text \<open>
  C7: an iteration of the loop should raise nothing. The code raises: the attribute
  \<open>_navigator_feed\<close> is assigned by the navigation feedback callback only, and
  \<open>_logging\<close> reads it whenever an order is in progress. When the first leg to the
  kitchen ends without any feedback notification and an order is then taken up on an
  iteration that also runs \<open>_logging\<close> (the fourth one), the read raises
  \<open>AttributeError\<close>, which leaves \<open>spin\<close>.
\<close>

theorem logging_raises_without_feedback:
  "raised (run order_pending (start example_config)) = None
   \<and> navigator_feed (final_machine (run order_pending (start example_config))) = None
   \<and> raised (run (order_pending @ [Tick]) (start example_config))
       = Some (AttributeError ''_navigator_feed'')"
  by (simp add: all_defs)

subsection \<open>One transition per iteration\<close>

text \<open>
  C8: one iteration of the loop (the handler of the current state, then the status
  emission when it is due) assigns the current state at most once, whether or not the
  iteration ends with an exception; if it does not assign it the state is unchanged, and
  otherwise the state is the one value assigned.
\<close>

theorem one_state_write_per_tick:
  "length (new_state_writes (robot w) (final_machine (spin_iteration w))) \<le> 1
   \<and> state_writes (final_machine (spin_iteration w)) =
       state_writes (robot w) @ new_state_writes (robot w) (final_machine (spin_iteration w))
   \<and> (if new_state_writes (robot w) (final_machine (spin_iteration w)) = []
       then current_state (final_machine (spin_iteration w)) = current_state (robot w)
       else new_state_writes (robot w) (final_machine (spin_iteration w))
              = [current_state (final_machine (spin_iteration w))])"
  by (cases "current_state (robot w)")
     (auto simp: helper_defs handler_defs loop_defs observe_defs Let_def split: option.splits)

theorem one_state_write_per_tick_witness:
  "new_state_writes (final_machine (run localized_after_request (start example_config)))
     (final_machine (spin_iteration
        \<lparr>loop_t = 3,
         robot = final_machine (run localized_after_request (start example_config))\<rparr>))
    = [STATE_GOTO_KITCHEN]
   \<and> current_state (final_machine (spin_iteration
        \<lparr>loop_t = 3,
         robot = final_machine (run localized_after_request (start example_config))\<rparr>))
    = STATE_GOTO_KITCHEN"
  using one_state_write_per_tick
    [of "\<lparr>loop_t = 3,
         robot = final_machine (run localized_after_request (start example_config))\<rparr>"]
  by (simp add: all_defs)

subsection \<open>Initialization\<close>

text \<open>
  C9, as stated, fails: when the localized flag is already true and the handler has not
  yet sent its localization request, the handler first clears the flag and sends the
  request; it issues no navigation request and the state stays \<open>INITIALIZATION\<close>.
\<close>

theorem initialization_flag_cleared_counterexample:
  "raised (run localized_before_first_tick (start example_config)) = None
   \<and> current_state (final_machine (run localized_before_first_tick (start example_config)))
       = STATE_INITIALIZATION
   \<and> initialized (final_machine (run localized_before_first_tick (start example_config)))
   \<and> raised (run (localized_before_first_tick @ [Tick]) (start example_config)) = None
   \<and> current_state
        (final_machine (run (localized_before_first_tick @ [Tick]) (start example_config)))
       = STATE_INITIALIZATION
   \<and> filter is_send_goal
        (out (final_machine (run (localized_before_first_tick @ [Tick]) (start example_config))))
       = []"
  by (simp add: all_defs)

text \<open>
  C9, amended: when the Initialization handler runs with the localized flag true and the
  already-requested latch set, it issues exactly one navigation request, to the kitchen
  with approach mode on, the configured retry budget, the configured kitchen timeout and
  distance 0, clears the latch, and the state becomes \<open>GOTO_KITCHEN\<close> in that same
  handler call. When the latch is not set, the handler clears the localized flag, sends
  the localization request and sets the latch; it issues no navigation request and the
  state stays \<open>INITIALIZATION\<close>.
\<close>

theorem initialization_localized:
  assumes "current_state m = STATE_INITIALIZATION" and "initialized m"
  shows "handler_error (dispatch m) = None \<and>
     (if init_requested m
      then filter is_send_goal (new_effects m (handled (dispatch m))) =
             [SendGoal \<lparr>goal_location = ''kitchen'', goal_approach_type = APPROACH_ON,
                        goal_num_retry = nav_retry (cfg m),
                        goal_timeout = nav_kitchen_timeout (cfg m), goal_distance = 0\<rparr>]
           \<and> init_requested (handled (dispatch m)) = False
           \<and> current_state (handled (dispatch m)) = STATE_GOTO_KITCHEN
           \<and> new_state_writes m (handled (dispatch m)) = [STATE_GOTO_KITCHEN]
      else filter is_motion (new_effects m (handled (dispatch m))) = [PublishLocalize]
           \<and> init_requested (handled (dispatch m)) = True
           \<and> initialized (handled (dispatch m)) = False
           \<and> current_state (handled (dispatch m)) = STATE_INITIALIZATION
           \<and> new_state_writes m (handled (dispatch m)) = [])"
  using assms
  by (auto simp: helper_defs handler_defs observe_defs Let_def)

theorem initialization_localized_witness:
  "current_state (final_machine (run localized_after_request (start example_config)))
     = STATE_INITIALIZATION
   \<and> initialized (final_machine (run localized_after_request (start example_config)))
   \<and> init_requested (final_machine (run localized_after_request (start example_config)))
   \<and> filter is_send_goal
        (new_effects (final_machine (run localized_after_request (start example_config)))
           (handled (dispatch
              (final_machine (run localized_after_request (start example_config))))))
       = [SendGoal \<lparr>goal_location = ''kitchen'', goal_approach_type = APPROACH_ON,
                    goal_num_retry = 3, goal_timeout = 300, goal_distance = 0\<rparr>]
   \<and> current_state
        (handled (dispatch (final_machine (run localized_after_request (start example_config)))))
       = STATE_GOTO_KITCHEN"
proof -
  have h1: "current_state (final_machine (run localized_after_request (start example_config)))
     = STATE_INITIALIZATION"
    by (simp add: all_defs)
  have h2: "initialized (final_machine (run localized_after_request (start example_config)))"
    by (simp add: all_defs)
  have h3: "init_requested (final_machine (run localized_after_request (start example_config)))"
    by (simp add: all_defs)
  have c: "cfg (final_machine (run localized_after_request (start example_config)))
     = example_config"
    by (simp add: all_defs)
  from initialization_localized [OF h1 h2] h1 h2 h3 c show ?thesis
    by (simp add: example_config_def)
qed

subsection \<open>Before the first green button edge\<close>

lemma error_idle_step:
  assumes "error_idle (robot w)" and "no_green_edge (previous_button (robot w)) (e # es)"
  shows "\<exists>w'. step e w = Inr w' \<and> error_idle (robot w')
           \<and> no_green_edge (previous_button (robot w')) es"
  using assms
  by (cases e)
     (auto simp: error_idle_def helper_defs callback_defs handler_defs loop_defs green_edge_def
        Let_def split: option.splits if_splits prod.splits)

lemma error_idle_run:
  assumes "error_idle (robot w)" and "no_green_edge (previous_button (robot w)) evs"
  shows "\<exists>w'. run evs w = Inr w' \<and> error_idle (robot w')"
  using assms
proof (induction evs arbitrary: w)
  case Nil
  then show ?case by simp
next
  case (Cons e es)
  from error_idle_step [OF Cons.prems] obtain w1 where
    s: "step e w = Inr w1" and i: "error_idle (robot w1)"
    and g: "no_green_edge (previous_button (robot w1)) es" by blast
  from Cons.IH [OF i g] s show ?case by simp
qed

lemma error_idle_start:
  "error_idle (robot (start c))" "previous_button (robot (start c)) = None"
  by (simp_all add: error_idle_def helper_defs loop_defs)

text \<open>
  C10: the constructor leaves the current state at \<open>ON_ERROR\<close>. In every run from
  construction in which no button sample is a green rising edge, whatever other callbacks
  arrive, no iteration raises, the state is \<open>ON_ERROR\<close> throughout, so that every
  iteration runs the Error handler, which does nothing, and neither a localization
  request nor a navigation goal is sent.
\<close>

theorem no_motion_before_green_button:
  assumes "no_green_edge None evs"
  shows "current_state (StateManager c) = STATE_ON_ERROR
     \<and> raised (run evs (start c)) = None
     \<and> current_state (final_machine (run evs (start c))) = STATE_ON_ERROR
     \<and> dispatch (final_machine (run evs (start c)))
         = Inr (final_machine (run evs (start c)))
     \<and> filter is_motion (out (final_machine (run evs (start c)))) = []"
proof -
  from assms have "no_green_edge (previous_button (robot (start c))) evs"
    by (simp add: error_idle_start)
  from error_idle_run [OF error_idle_start(1) this] obtain w' where
    r: "run evs (start c) = Inr w'" and i: "error_idle (robot w')" by blast
  have "current_state (StateManager c) = STATE_ON_ERROR"
    by (simp add: helper_defs loop_defs)
  with r i show ?thesis
    by (simp add: error_idle_def final_machine_def raised_def dispatch_def state_on_error_def)
qed

theorem no_motion_before_green_button_witness:
  "no_green_edge None button_untouched
   \<and> raised (run button_untouched (start example_config)) = None
   \<and> current_state (final_machine (run button_untouched (start example_config)))
       = STATE_ON_ERROR
   \<and> filter is_motion (out (final_machine (run button_untouched (start example_config)))) = []"
proof -
  have h: "no_green_edge None button_untouched"
    by (simp add: button_untouched_def green_edge_def check_button_event_def released_def)
  from no_motion_before_green_button [OF h, of example_config] h show ?thesis by simp
qed

end
